theory Spec2Isabelle
  imports Main "HOL-Library.Word"
begin

unbundle bit_operations_syntax

section \<open>Bytes, buffers and text encodings\<close>

text \<open>
  A Node \<open>Buffer\<close> is a list of bytes. JavaScript strings are modelled as HOL strings
  (the services only exchange ASCII text: hex, base64, key identifiers).
\<close>

type_synonym byte = "8 word"
type_synonym buffer = "byte list"

text \<open>
  Every \<open>throw\<close> of the sources and of the library calls they make is a value of this type.
\<close>

datatype error =
    TypeError
  | InvalidKeyLength
  | InvalidIV
  | WrongFinalBlockLength
  | BadDecrypt
  | InvalidMasterKeyLength
  | InvalidDEKLength
  | NoActiveMasterKey
  | NoRetiredMasterKey
  | DupEntry
  | DataTooLong
  | BadFieldError

text \<open>\<open>buf.toString('hex')\<close>: two lower-case digits per byte.\<close>

definition hex_digit :: "nat \<Rightarrow> char" where
  "hex_digit n = (if n < 10 then char_of (48 + n) else char_of (87 + n))"

definition hex_encode :: "buffer \<Rightarrow> string" where
  "hex_encode bs = concat (map (\<lambda>b. [hex_digit (unat b div 16), hex_digit (unat b mod 16)]) bs)"

definition hex_val :: "char \<Rightarrow> nat option" where
  "hex_val c =
     (let n = (of_char c :: nat) in
      if 48 \<le> n \<and> n \<le> 57 then Some (n - 48)
      else if 97 \<le> n \<and> n \<le> 102 then Some (n - 87)
      else if 65 \<le> n \<and> n \<le> 70 then Some (n - 55)
      else None)"

text \<open>
  \<open>Buffer.from(s, 'hex')\<close>: decodes pairs of digits and stops, without an error, at the
  first pair that is not hexadecimal; a trailing single character is dropped.
\<close>

fun hex_decode :: "string \<Rightarrow> buffer" where
  "hex_decode (a # b # rest) =
     (case hex_val a of
        None \<Rightarrow> []
      | Some x \<Rightarrow> (case hex_val b of
                     None \<Rightarrow> []
                   | Some y \<Rightarrow> of_nat (16 * x + y) # hex_decode rest))"
| "hex_decode _ = []"

text \<open>\<open>Buffer.from(s)\<close> on a string: its bytes.\<close>

definition buffer_from_string :: "string \<Rightarrow> buffer" where
  "buffer_from_string s = map (\<lambda>c. of_nat (of_char c)) s"

text \<open>\<open>s.padEnd(n, '0')\<close>.\<close>

definition padEnd :: "string \<Rightarrow> nat \<Rightarrow> string" where
  "padEnd s n = s @ replicate (n - length s) CHR ''0''"

text \<open>\<open>s.replace(pat, '')\<close> with a string pattern: removes the first occurrence only.\<close>

fun is_prefix :: "string \<Rightarrow> string \<Rightarrow> bool" where
  "is_prefix [] s = True"
| "is_prefix (p # ps) [] = False"
| "is_prefix (p # ps) (c # cs) = (p = c \<and> is_prefix ps cs)"

fun remove_first :: "string \<Rightarrow> string \<Rightarrow> string" where
  "remove_first pat [] = []"
| "remove_first pat (c # cs) =
     (if is_prefix pat (c # cs) then drop (length pat) (c # cs) else c # remove_first pat cs)"

section \<open>The cryptographic library\<close>

text \<open>
  The sources call Node's \<open>crypto\<close> module; the AES block function, the base64 codec,
  the UTF-8 decoding of \<open>buf.toString()\<close> and the conversion of a \<open>Date\<close> to a string
  are not code of the repository. They are parameters of the model, collected in one
  record. \<open>aes_enc k b\<close> is AES-256 on one 16-byte block.
\<close>

record node =
  aes_enc :: "buffer \<Rightarrow> buffer \<Rightarrow> buffer"
  aes_dec :: "buffer \<Rightarrow> buffer \<Rightarrow> buffer"
  b64_encode :: "buffer \<Rightarrow> string"
  b64_decode :: "string \<Rightarrow> buffer"
  utf8_toString :: "buffer \<Rightarrow> string"
  date_toString :: "nat \<Rightarrow> string"

text \<open>
  What the proofs use of the library: a block cipher maps 16-byte blocks to 16-byte blocks,
  decryption and encryption under the same 32-byte key are inverse to each other,
  base64 decoding inverts base64 encoding, and the empty string decodes to no bytes.
\<close>

definition good_node :: "node \<Rightarrow> bool" where
  "good_node P \<longleftrightarrow>
     (\<forall>k b. length k = 32 \<longrightarrow> length b = 16 \<longrightarrow>
        length (aes_enc P k b) = 16 \<and> aes_dec P k (aes_enc P k b) = b) \<and>
     (\<forall>k c. length k = 32 \<longrightarrow> length c = 16 \<longrightarrow>
        length (aes_dec P k c) = 16 \<and> aes_enc P k (aes_dec P k c) = c) \<and>
     (\<forall>bs. b64_decode P (b64_encode P bs) = bs) \<and>
     b64_decode P [] = []"

definition xor_bytes :: "buffer \<Rightarrow> buffer \<Rightarrow> buffer" where
  "xor_bytes a b = map (\<lambda>(x, y). x XOR y) (zip a b)"

text \<open>
  CBC chaining over \<open>n\<close> blocks of 16 bytes: each plaintext block is XORed with the
  previous ciphertext block (the IV for the first) before the block cipher is applied.
\<close>

fun cbc_enc :: "(buffer \<Rightarrow> buffer) \<Rightarrow> buffer \<Rightarrow> nat \<Rightarrow> buffer \<Rightarrow> buffer" where
  "cbc_enc E prev 0 xs = []"
| "cbc_enc E prev (Suc n) xs =
     (let c = E (xor_bytes (take 16 xs) prev) in c @ cbc_enc E c n (drop 16 xs))"

fun cbc_dec :: "(buffer \<Rightarrow> buffer) \<Rightarrow> buffer \<Rightarrow> nat \<Rightarrow> buffer \<Rightarrow> buffer" where
  "cbc_dec D prev 0 cs = []"
| "cbc_dec D prev (Suc n) cs =
     (let c = take 16 cs in xor_bytes (D c) prev @ cbc_dec D c n (drop 16 cs))"

text \<open>
  The padding that a cipher object adds by itself in \<open>cipher.final()\<close> (automatic padding
  is on by default), and the check that \<open>decipher.final()\<close> makes before removing it:
  the last byte \<open>n\<close> must be between 1 and 16 and the last \<open>n\<close> bytes must all be \<open>n\<close>.
\<close>

definition final_pad :: "buffer \<Rightarrow> buffer" where
  "final_pad xs = xs @ replicate (16 - length xs mod 16) (of_nat (16 - length xs mod 16))"

definition final_unpad :: "buffer \<Rightarrow> error + buffer" where
  "final_unpad xs =
     (if xs = [] then Inl BadDecrypt
      else let n = unat (last xs) in
        if n = 0 \<or> 16 < n then Inl BadDecrypt
        else if drop (length xs - n) xs = replicate n (last xs)
        then Inr (take (length xs - n) xs)
        else Inl BadDecrypt)"

text \<open>
  \<open>crypto.createCipheriv('aes-256-cbc', key, iv)\<close> followed by
  \<open>Buffer.concat([cipher.update(data), cipher.final()])\<close>. The constructor throws when the
  key is not 32 bytes or the IV is not 16 bytes.
\<close>

definition aes_256_cbc_encrypt :: "node \<Rightarrow> buffer \<Rightarrow> buffer \<Rightarrow> buffer \<Rightarrow> error + buffer" where
  "aes_256_cbc_encrypt P key iv dat =
     (if length key \<noteq> 32 then Inl InvalidKeyLength
      else if length iv \<noteq> 16 then Inl InvalidIV
      else let padded = final_pad dat
           in Inr (cbc_enc (aes_enc P key) iv (length padded div 16) padded))"

text \<open>
  \<open>crypto.createDecipheriv('aes-256-cbc', key, iv)\<close> followed by
  \<open>Buffer.concat([decipher.update(ct), decipher.final()])\<close>. \<open>final()\<close> throws when the
  input is empty or not a whole number of blocks, and when the padding check fails.
\<close>

definition aes_256_cbc_decrypt :: "node \<Rightarrow> buffer \<Rightarrow> buffer \<Rightarrow> buffer \<Rightarrow> error + buffer" where
  "aes_256_cbc_decrypt P key iv ct =
     (if length key \<noteq> 32 then Inl InvalidKeyLength
      else if length iv \<noteq> 16 then Inl InvalidIV
      else if ct = [] \<or> length ct mod 16 \<noteq> 0 then Inl WrongFinalBlockLength
      else final_unpad (cbc_dec (aes_dec P key) iv (length ct div 16) ct))"

section \<open>PKCS7 helpers of the vault and of the rotation script\<close>

text \<open>
  \<open>pkcs7Pad\<close> appends \<open>16 - len mod 16\<close> bytes of that value. \<open>pkcs7Unpad\<close> reads the last
  byte and returns \<open>buf.slice(0, -padLen)\<close> with no check: on an empty buffer \<open>padLen\<close> is
  \<open>undefined\<close> and the slice ends at 0; for \<open>padLen = 0\<close> the end \<open>-0\<close> is 0 as well; a
  \<open>padLen\<close> beyond the length is clamped to 0. In all three cases the result is empty.
\<close>

definition pkcs7Pad :: "buffer \<Rightarrow> buffer" where
  "pkcs7Pad buf =
     (let padLen = 16 - length buf mod 16
      in buf @ replicate padLen (of_nat padLen))"

definition pkcs7Unpad :: "buffer \<Rightarrow> buffer" where
  "pkcs7Unpad buf =
     (if buf = [] then []
      else let padLen = unat (last buf)
           in if padLen = 0 then [] else take (length buf - padLen) buf)"

section \<open>master\_key\_manager.js\<close>

datatype status = Active | Retired

text \<open>
  A row of table \<open>master_keys\<close>. The table is the list of its rows in insertion order
  (the order of the auto-increment primary key \<open>id\<close>); a \<open>SELECT\<close> without
  \<open>ORDER BY\<close> returns the rows in that order. Identifiers are compared with HOL equality,
  both by the \<open>UNIQUE\<close> constraint and by \<open>key_id != ?\<close>.
\<close>

record master_key_row =
  key_id :: string
  key_material :: string
  created_at :: nat
  status :: status
  description :: "string option"

type_synonym master_keys = "master_key_row list"

record master_key =
  keyId :: string
  keyMaterial :: buffer

definition encryptKey :: "node \<Rightarrow> buffer \<Rightarrow> buffer \<Rightarrow> buffer \<Rightarrow> error + string" where
  "encryptKey P ROOT_KEY iv keyBuf =
     (case aes_256_cbc_encrypt P ROOT_KEY iv keyBuf of
        Inl e \<Rightarrow> Inl e
      | Inr encrypted \<Rightarrow> Inr (b64_encode P (iv @ encrypted)))"

definition decryptKey :: "node \<Rightarrow> buffer \<Rightarrow> string \<Rightarrow> error + buffer" where
  "decryptKey P ROOT_KEY encryptedB64 =
     (let buf = b64_decode P encryptedB64;
          iv = take 16 buf;
          encrypted = drop 16 buf
      in aes_256_cbc_decrypt P ROOT_KEY iv encrypted)"

text \<open>
  \<open>encryptKey\<close> is only called with a \<open>Buffer\<close>, so its conversion of a hex string
  argument does not arise.
\<close>

text \<open>
  The \<open>INSERT\<close>: rejected when \<open>key_id\<close> is already present (\<open>UNIQUE\<close>) and, in MySQL's
  default strict mode, when a value does not fit its column (\<open>VARCHAR(64)\<close>, \<open>TEXT\<close>).
\<close>

definition insert_master_key :: "master_keys \<Rightarrow> string \<Rightarrow> string \<Rightarrow> nat \<Rightarrow> error + master_keys" where
  "insert_master_key tbl kid encrypted now =
     (if kid \<in> set (map key_id tbl) then Inl DupEntry
      else if 64 < length kid \<or> 65535 < length encrypted then Inl DataTooLong
      else Inr (tbl @ [\<lparr>key_id = kid, key_material = encrypted, created_at = now,
                        status = Active, description = None\<rparr>]))"

text \<open>\<open>UPDATE master_keys SET status = 'retired' WHERE key_id != ? AND status = 'active'\<close>.\<close>

definition retire_others :: "master_keys \<Rightarrow> string \<Rightarrow> master_keys" where
  "retire_others tbl kid =
     map (\<lambda>r. if key_id r \<noteq> kid \<and> status r = Active then r\<lparr>status := Retired\<rparr> else r) tbl"

text \<open>
  \<open>addMasterKey(keyId, hexKey)\<close>. The random IV and the clock are inputs. An error leaves
  the table as it was: the statement that failed is the first one that writes.
\<close>

definition addMasterKey ::
  "node \<Rightarrow> buffer \<Rightarrow> buffer \<Rightarrow> nat \<Rightarrow> string \<Rightarrow> string \<Rightarrow> master_keys \<Rightarrow> error + master_keys" where
  "addMasterKey P ROOT_KEY iv now kid hexKey tbl =
     (let keyBuf = hex_decode hexKey in
      case encryptKey P ROOT_KEY iv keyBuf of
        Inl e \<Rightarrow> Inl e
      | Inr encrypted \<Rightarrow>
          (case insert_master_key tbl kid encrypted now of
             Inl e \<Rightarrow> Inl e
           | Inr tbl1 \<Rightarrow> Inr (retire_others tbl1 kid)))"

text \<open>
  \<open>getActiveMasterKey\<close>: the active rows, newest first, limited to one. The sort is stable,
  so among rows of equal \<open>created_at\<close> the earliest inserted comes first.
\<close>

definition getActiveMasterKey :: "node \<Rightarrow> buffer \<Rightarrow> master_keys \<Rightarrow> error + master_key" where
  "getActiveMasterKey P ROOT_KEY tbl =
     (case sort_key (\<lambda>r. - int (created_at r)) (filter (\<lambda>r. status r = Active) tbl) of
        [] \<Rightarrow> Inl NoActiveMasterKey
      | r # _ \<Rightarrow>
          (case decryptKey P ROOT_KEY (key_material r) of
             Inl e \<Rightarrow> Inl e
           | Inr m \<Rightarrow> Inr \<lparr>keyId = key_id r, keyMaterial = m\<rparr>))"

text \<open>
  \<open>getRetiredMasterKeys\<close>: the retired rows as the query returns them (no \<open>ORDER BY\<close>),
  each unwrapped; the first unwrap that throws makes the whole call throw.
\<close>

fun unwrap_rows :: "node \<Rightarrow> buffer \<Rightarrow> master_key_row list \<Rightarrow> error + master_key list" where
  "unwrap_rows P ROOT_KEY [] = Inr []"
| "unwrap_rows P ROOT_KEY (r # rs) =
     (case decryptKey P ROOT_KEY (key_material r) of
        Inl e \<Rightarrow> Inl e
      | Inr m \<Rightarrow>
          (case unwrap_rows P ROOT_KEY rs of
             Inl e \<Rightarrow> Inl e
           | Inr ms \<Rightarrow> Inr (\<lparr>keyId = key_id r, keyMaterial = m\<rparr> # ms)))"

definition getRetiredMasterKeys :: "node \<Rightarrow> buffer \<Rightarrow> master_keys \<Rightarrow> error + master_key list" where
  "getRetiredMasterKeys P ROOT_KEY tbl =
     unwrap_rows P ROOT_KEY (filter (\<lambda>r. status r = Retired) tbl)"

text \<open>
  A sequence of \<open>addMasterKey\<close> calls run one after the other; a call that throws leaves
  the table unchanged and the next call runs on it.
\<close>

record add_call =
  call_iv :: buffer
  call_now :: nat
  call_keyId :: string
  call_hexKey :: string

fun add_calls :: "node \<Rightarrow> buffer \<Rightarrow> add_call list \<Rightarrow> master_keys \<Rightarrow> master_keys" where
  "add_calls P ROOT_KEY [] tbl = tbl"
| "add_calls P ROOT_KEY (c # cs) tbl =
     (case addMasterKey P ROOT_KEY (call_iv c) (call_now c) (call_keyId c) (call_hexKey c) tbl of
        Inl e \<Rightarrow> add_calls P ROOT_KEY cs tbl
      | Inr tbl' \<Rightarrow> add_calls P ROOT_KEY cs tbl')"

section \<open>The vault: master-key-server/index.js\<close>

text \<open>\<open>!x\<close> on a request field that is a string or absent: absent and empty are falsy.\<close>

fun truthy :: "string option \<Rightarrow> bool" where
  "truthy None = False"
| "truthy (Some s) = (s \<noteq> [])"

record encrypt_request =
  body_data :: "string option"
  body_dek :: "string option"

record decrypt_dek_request =
  header_authorization :: "string option"
  body_encrypted_dek :: "string option"

datatype response =
    Encrypted string string
  | Dek string
  | Failure nat string

text \<open>
  Lines 41-44 of the encrypt handler: the payload is padded by \<open>pkcs7Pad\<close>, encrypted under
  the DEK with a fresh IV, and returned as base64 of IV followed by ciphertext.
\<close>

definition encryptPayload :: "node \<Rightarrow> buffer \<Rightarrow> buffer \<Rightarrow> buffer \<Rightarrow> error + string" where
  "encryptPayload P dekBuf iv plainData =
     (case aes_256_cbc_encrypt P dekBuf iv (pkcs7Pad plainData) of
        Inl e \<Rightarrow> Inl e
      | Inr ct \<Rightarrow> Inr (b64_encode P (iv @ ct)))"

text \<open>Lines 46-50: the DEK is wrapped the same way under the master key.\<close>

definition wrapDek :: "node \<Rightarrow> buffer \<Rightarrow> buffer \<Rightarrow> buffer \<Rightarrow> error + string" where
  "wrapDek P masterKey iv2 dekBuf =
     (case aes_256_cbc_encrypt P masterKey iv2 (pkcs7Pad dekBuf) of
        Inl e \<Rightarrow> Inl e
      | Inr ct \<Rightarrow> Inr (b64_encode P (iv2 @ ct)))"

text \<open>The \<open>try\<close> block of \<open>POST /api/encrypt\<close>.\<close>

definition encrypt_body ::
  "node \<Rightarrow> buffer \<Rightarrow> master_keys \<Rightarrow> buffer \<Rightarrow> buffer \<Rightarrow> string \<Rightarrow> string \<Rightarrow> error + string \<times> string" where
  "encrypt_body P ROOT_KEY mks iv iv2 base64Data dek =
     (case getActiveMasterKey P ROOT_KEY mks of
        Inl e \<Rightarrow> Inl e
      | Inr active \<Rightarrow>
          let masterKey = keyMaterial active in
          if length masterKey \<noteq> 32 then Inl InvalidMasterKeyLength
          else
            let plainData = b64_decode P base64Data;
                dekBuf = hex_decode dek
            in if length dekBuf \<noteq> 32 then Inl InvalidDEKLength
               else (case encryptPayload P dekBuf iv plainData of
                       Inl e \<Rightarrow> Inl e
                     | Inr encryptedKeyB64 \<Rightarrow>
                         (case wrapDek P masterKey iv2 dekBuf of
                            Inl e \<Rightarrow> Inl e
                          | Inr encryptedDekB64 \<Rightarrow> Inr (encryptedKeyB64, encryptedDekB64))))"

definition api_encrypt ::
  "node \<Rightarrow> buffer \<Rightarrow> master_keys \<Rightarrow> buffer \<Rightarrow> buffer \<Rightarrow> encrypt_request \<Rightarrow> response" where
  "api_encrypt P ROOT_KEY mks iv iv2 req =
     (case (body_data req, body_dek req) of
        (Some base64Data, Some dek) \<Rightarrow>
          if base64Data = [] \<or> dek = [] then Failure 400 ''Missing fields''
          else (case encrypt_body P ROOT_KEY mks iv iv2 base64Data dek of
                  Inl e \<Rightarrow> Failure 500 ''Encryption failed''
                | Inr (k, d) \<Rightarrow> Encrypted k d)
      | _ \<Rightarrow> Failure 400 ''Missing fields'')"

text \<open>
  The auth service, auth/index.js, \<open>POST /verify\<close>: 400 without a token, 401 when
  \<open>jwt.verify\<close> throws, otherwise the decoded payload. \<open>jwt.verify\<close> with the service's
  secret is a parameter; of the payload only the field \<open>id\<close> is read.
\<close>

record jwt_payload =
  payload_id :: "string option"

datatype verify_response = Verified jwt_payload | Rejected nat

definition auth_verify :: "(string \<Rightarrow> jwt_payload option) \<Rightarrow> string \<Rightarrow> verify_response" where
  "auth_verify jwt token =
     (if token = [] then Rejected 400
      else case jwt token of
             None \<Rightarrow> Rejected 401
           | Some decoded \<Rightarrow> Verified decoded)"

text \<open>Lines 81-86 of the decrypt-dek handler.\<close>

definition unwrapDek :: "node \<Rightarrow> buffer \<Rightarrow> string \<Rightarrow> error + buffer" where
  "unwrapDek P masterKey encryptedDekB64 =
     (let encryptedDek = b64_decode P encryptedDekB64;
          iv = take 16 encryptedDek;
          ciphertext = drop 16 encryptedDek
      in case aes_256_cbc_decrypt P masterKey iv ciphertext of
           Inl e \<Rightarrow> Inl e
         | Inr paddedDek \<Rightarrow> Inr (pkcs7Unpad paddedDek))"

text \<open>The second \<open>try\<close> block of \<open>POST /api/decrypt-dek\<close>.\<close>

definition decrypt_dek_body :: "node \<Rightarrow> buffer \<Rightarrow> master_keys \<Rightarrow> string \<Rightarrow> error + string" where
  "decrypt_dek_body P ROOT_KEY mks encryptedDekB64 =
     (case getActiveMasterKey P ROOT_KEY mks of
        Inl e \<Rightarrow> Inl e
      | Inr active \<Rightarrow>
          let masterKey = keyMaterial active in
          if length masterKey \<noteq> 32 then Inl InvalidMasterKeyLength
          else (case unwrapDek P masterKey encryptedDekB64 of
                  Inl e \<Rightarrow> Inl e
                | Inr dek \<Rightarrow> Inr (hex_encode dek)))"

text \<open>
  \<open>POST /api/decrypt-dek\<close>. The token is the \<open>Authorization\<close> header with the first
  \<open>'Bearer '\<close> removed. A rejected verification request makes \<open>axios.post\<close> throw.
  The request carries the wrapped DEK only; any other body field is not read.
\<close>

definition api_decrypt_dek ::
  "node \<Rightarrow> (string \<Rightarrow> jwt_payload option) \<Rightarrow> buffer \<Rightarrow> master_keys \<Rightarrow>
   decrypt_dek_request \<Rightarrow> response" where
  "api_decrypt_dek P jwt ROOT_KEY mks req =
     (let token = map_option (remove_first ''Bearer '') (header_authorization req) in
      case (token, body_encrypted_dek req) of
        (Some tok, Some encryptedDekB64) \<Rightarrow>
          if tok = [] \<or> encryptedDekB64 = [] then Failure 400 ''Missing fields''
          else (case auth_verify jwt tok of
                  Rejected _ \<Rightarrow> Failure 401 ''Token verification failed''
                | Verified payload \<Rightarrow>
                    if \<not> truthy (payload_id payload) then Failure 401 ''Invalid token payload''
                    else (case decrypt_dek_body P ROOT_KEY mks encryptedDekB64 of
                            Inl e \<Rightarrow> Failure 500 ''Decryption failed''
                          | Inr dekHex \<Rightarrow> Dek dekHex))
      | _ \<Rightarrow> Failure 400 ''Missing fields'')"

section \<open>The key server: payload decryption in \<open>GET /api/keys\<close>\<close>

text \<open>
  Lines 120-129 of key-server/index.js: the DEK arrives as hex from the vault, the stored
  blob is split into IV and ciphertext, and the last byte of the decrypted buffer decides
  how much is sliced off, exactly as in \<open>pkcs7Unpad\<close>. The result is decoded to a string.
\<close>

definition decryptPayload :: "node \<Rightarrow> string \<Rightarrow> string \<Rightarrow> error + string" where
  "decryptPayload P dek encrypted_key =
     (let encryptedKeyBuf = b64_decode P encrypted_key;
          dekBuf = hex_decode dek;
          iv = take 16 encryptedKeyBuf;
          ciphertext = drop 16 encryptedKeyBuf
      in case aes_256_cbc_decrypt P dekBuf iv ciphertext of
           Inl e \<Rightarrow> Inl e
         | Inr paddedPlain \<Rightarrow> Inr (utf8_toString P (pkcs7Unpad paddedPlain)))"

section \<open>The envelope table and the rotation script: rotate-mk.js\<close>

text \<open>
  Table \<open>kms_keys\<close> is created by the key server with the columns \<open>user_id\<close>,
  \<open>encrypted_key\<close>, \<open>encrypted_dek\<close> and \<open>created_at\<close>, if it does not exist yet; the
  rotation script reads a column \<open>key_id\<close>. The table therefore carries its column names,
  and a row gives a value to every column name (only those of the table matter).
\<close>

datatype sql_value = SqlNull | SqlText string | SqlDateTime nat

type_synonym sql_row = "string \<Rightarrow> sql_value"

record kms_table =
  columns :: "string list"
  rows :: "sql_row list"

record database =
  master_keys_tbl :: master_keys
  kms_keys_tbl :: kms_table

text \<open>\<open>SELECT key_id, encrypted_dek FROM kms_keys\<close>: fails on an unknown column.\<close>

definition select_key_id_encrypted_dek :: "kms_table \<Rightarrow> error + (sql_value \<times> sql_value) list" where
  "select_key_id_encrypted_dek tbl =
     (if ''key_id'' \<in> set (columns tbl) \<and> ''encrypted_dek'' \<in> set (columns tbl)
      then Inr (map (\<lambda>r. (r ''key_id'', r ''encrypted_dek'')) (rows tbl))
      else Inl BadFieldError)"

text \<open>SQL equality in a \<open>WHERE\<close> clause: a comparison with \<open>NULL\<close> never holds.\<close>

fun sql_eq :: "sql_value \<Rightarrow> sql_value \<Rightarrow> bool" where
  "sql_eq (SqlText a) (SqlText b) = (a = b)"
| "sql_eq (SqlDateTime a) (SqlDateTime b) = (a = b)"
| "sql_eq _ _ = False"

text \<open>\<open>UPDATE kms_keys SET encrypted_dek = ? WHERE key_id = ?\<close>.\<close>

definition update_encrypted_dek :: "kms_table \<Rightarrow> string \<Rightarrow> sql_value \<Rightarrow> kms_table" where
  "update_encrypted_dek tbl newEncryptedDek kid =
     tbl\<lparr>rows := map (\<lambda>r. if sql_eq (r ''key_id'') kid
                           then r(''encrypted_dek'' := SqlText newEncryptedDek)
                           else r) (rows tbl)\<rparr>"

text \<open>
  The master key handed to \<open>decryptDek\<close> and \<open>encryptDek\<close> is a JavaScript value; both call
  \<open>masterKey.padEnd(32, '0')\<close>, a method of strings that a \<open>Buffer\<close> does not have.
\<close>

datatype js_value = JsString string | JsBuffer buffer

text \<open>
  \<open>Buffer.from(v, 'base64')\<close> on a column value as the driver returns it: a string is
  decoded, \<open>null\<close> throws a \<open>TypeError\<close>, and a \<open>Date\<close> is first converted to its string.
\<close>

definition buffer_from_base64 :: "node \<Rightarrow> sql_value \<Rightarrow> error + buffer" where
  "buffer_from_base64 P v =
     (case v of
        SqlNull \<Rightarrow> Inl TypeError
      | SqlText s \<Rightarrow> Inr (b64_decode P s)
      | SqlDateTime t \<Rightarrow> Inr (b64_decode P (date_toString P t)))"

definition decryptDek :: "node \<Rightarrow> sql_value \<Rightarrow> js_value \<Rightarrow> error + buffer" where
  "decryptDek P encryptedDekB64 masterKey =
     (case buffer_from_base64 P encryptedDekB64 of
        Inl e \<Rightarrow> Inl e
      | Inr encryptedDek \<Rightarrow>
          (case masterKey of
             JsBuffer b \<Rightarrow> Inl TypeError
           | JsString m \<Rightarrow>
               (let mkBytes = buffer_from_string (padEnd m 32);
                    iv = take 16 encryptedDek;
                    ciphertext = drop 16 encryptedDek
                in case aes_256_cbc_decrypt P mkBytes iv ciphertext of
                     Inl e \<Rightarrow> Inl e
                   | Inr padded \<Rightarrow> Inr (pkcs7Unpad padded))))"

definition encryptDek :: "node \<Rightarrow> buffer \<Rightarrow> js_value \<Rightarrow> buffer \<Rightarrow> error + string" where
  "encryptDek P dekBytes masterKey iv =
     (case masterKey of
        JsBuffer b \<Rightarrow> Inl TypeError
      | JsString m \<Rightarrow>
          (let mkBytes = buffer_from_string (padEnd m 32);
               padded = pkcs7Pad dekBytes
           in case aes_256_cbc_encrypt P mkBytes iv padded of
                Inl e \<Rightarrow> Inl e
              | Inr ct \<Rightarrow> Inr (b64_encode P (iv @ ct))))"

text \<open>
  The body of the \<open>try\<close> in the row loop up to the \<open>UPDATE\<close>: the new wrapped DEK of the
  row, or the error that the \<open>catch\<close> logs.
\<close>

definition rewrap :: "node \<Rightarrow> js_value \<Rightarrow> js_value \<Rightarrow> buffer \<Rightarrow> sql_value \<Rightarrow> error + string" where
  "rewrap P OLD_MASTER_KEY NEW_MASTER_KEY iv encrypted_dek =
     (case decryptDek P encrypted_dek OLD_MASTER_KEY of
        Inl e \<Rightarrow> Inl e
      | Inr dekBytes \<Rightarrow> encryptDek P dekBytes NEW_MASTER_KEY iv)"

text \<open>What the loop writes to the console for a row.\<close>

datatype outcome = Rotated sql_value | FailedToRotate sql_value error

text \<open>
  The row loop over the result of the \<open>SELECT\<close>; each row comes with the random IV that
  \<open>encryptDek\<close> would draw for it. The table is threaded through the \<open>UPDATE\<close>s.
\<close>

fun rotate_rows ::
  "node \<Rightarrow> js_value \<Rightarrow> js_value \<Rightarrow> (buffer \<times> sql_value \<times> sql_value) list \<Rightarrow>
   kms_table \<Rightarrow> kms_table \<times> outcome list" where
  "rotate_rows P OLD_MASTER_KEY NEW_MASTER_KEY [] tbl = (tbl, [])"
| "rotate_rows P OLD_MASTER_KEY NEW_MASTER_KEY ((iv, kid, encrypted_dek) # rest) tbl =
     (case rewrap P OLD_MASTER_KEY NEW_MASTER_KEY iv encrypted_dek of
        Inl err \<Rightarrow>
          (let (tbl', log) = rotate_rows P OLD_MASTER_KEY NEW_MASTER_KEY rest tbl
           in (tbl', FailedToRotate kid err # log))
      | Inr newEncryptedDek \<Rightarrow>
          (let (tbl', log) = rotate_rows P OLD_MASTER_KEY NEW_MASTER_KEY rest
                               (update_encrypted_dek tbl newEncryptedDek kid)
           in (tbl', Rotated kid # log)))"

text \<open>
  \<open>rotateMasterKey\<close>. The key manager returns key material as a \<open>Buffer\<close>
  (\<open>decryptKey\<close>: "return as Buffer"), and that value is what the row loop passes on.
\<close>

definition rotateMasterKey ::
  "node \<Rightarrow> buffer \<Rightarrow> (nat \<Rightarrow> buffer) \<Rightarrow> database \<Rightarrow> error + database \<times> outcome list" where
  "rotateMasterKey P ROOT_KEY ivs db =
     (case getActiveMasterKey P ROOT_KEY (master_keys_tbl db) of
        Inl e \<Rightarrow> Inl e
      | Inr active \<Rightarrow>
          (case getRetiredMasterKeys P ROOT_KEY (master_keys_tbl db) of
             Inl e \<Rightarrow> Inl e
           | Inr retired \<Rightarrow>
               (case retired of
                  [] \<Rightarrow> Inl NoRetiredMasterKey
                | r0 # _ \<Rightarrow>
                    (case select_key_id_encrypted_dek (kms_keys_tbl db) of
                       Inl e \<Rightarrow> Inl e
                     | Inr rs \<Rightarrow>
                         (let (tbl', log) =
                                rotate_rows P (JsBuffer (keyMaterial r0)) (JsBuffer (keyMaterial active))
                                  (zip (map ivs [0..<length rs]) rs) (kms_keys_tbl db)
                          in Inr (db\<lparr>kms_keys_tbl := tbl'\<rparr>, log))))))"

section \<open>A concrete instance of the library parameters\<close>

text \<open>
  To run the model on concrete inputs the parameters need values. This instance uses a
  byte-wise additive permutation of 16-byte blocks, keyed by the first 16 key bytes, in
  place of the AES block function, and the hex codec in place of base64. It satisfies
  \<open>good_node\<close>, which is all the general theorems assume of the library.
\<close>

definition demo_enc :: "buffer \<Rightarrow> buffer \<Rightarrow> buffer" where
  "demo_enc k b = map (\<lambda>(x, y). x + y) (zip b (take 16 k))"

definition demo_dec :: "buffer \<Rightarrow> buffer \<Rightarrow> buffer" where
  "demo_dec k c = map (\<lambda>(x, y). x - y) (zip c (take 16 k))"

definition demo_node :: node where
  "demo_node = \<lparr>aes_enc = demo_enc, aes_dec = demo_dec,
                 b64_encode = hex_encode, b64_decode = hex_decode,
                 utf8_toString = map (\<lambda>b. char_of (unat b)),
                 date_toString = (\<lambda>t. ''Thu Jan 01 1970'')\<rparr>"

text \<open>A root key, three \<open>addMasterKey\<close> calls, a DEK and two tokens of the auth service.\<close>

definition demo_root_key :: buffer where
  "demo_root_key = replicate 32 9"

definition demo_calls :: "add_call list" where
  "demo_calls =
     [\<lparr>call_iv = replicate 16 1, call_now = 100, call_keyId = ''K1'',
       call_hexKey = hex_encode (replicate 32 17)\<rparr>,
      \<lparr>call_iv = replicate 16 2, call_now = 200, call_keyId = ''K2'',
       call_hexKey = hex_encode (replicate 32 34)\<rparr>,
      \<lparr>call_iv = replicate 16 3, call_now = 300, call_keyId = ''K3'',
       call_hexKey = hex_encode (replicate 32 51)\<rparr>]"

definition demo_master_keys :: "nat \<Rightarrow> master_keys" where
  "demo_master_keys n = add_calls demo_node demo_root_key (take n demo_calls) []"

definition demo_dek :: buffer where
  "demo_dek = replicate 32 5"

definition demo_jwt :: "string \<Rightarrow> jwt_payload option" where
  "demo_jwt tok =
     (if tok = ''token-42'' then Some \<lparr>payload_id = Some ''user-42''\<rparr>
      else if tok = ''token-7'' then Some \<lparr>payload_id = Some ''user-7''\<rparr>
      else None)"

text \<open>
  An envelope of owner \<open>user-7\<close>: the vault's answer to an encrypt request for the payload
  \<open>secret-1\<close> while the \<open>n\<close>-th key of \<open>demo_calls\<close> is the active one, stored as a row.
\<close>

definition demo_envelope :: "nat \<Rightarrow> sql_row" where
  "demo_envelope n =
     (case encrypt_body demo_node demo_root_key (demo_master_keys n)
             (replicate 16 7) (replicate 16 8)
             (hex_encode (buffer_from_string ''secret-1'')) (hex_encode demo_dek) of
        Inl e \<Rightarrow> (\<lambda>c. SqlNull)
      | Inr (k, d) \<Rightarrow>
          (\<lambda>c. SqlNull)(''key_id'' := SqlText ''e1'', ''user_id'' := SqlText ''user-7'',
                         ''encrypted_key'' := SqlText k, ''encrypted_dek'' := SqlText d,
                         ''created_at'' := SqlDateTime 150))"

text \<open>
  The envelope table in two shapes: with the columns the key server creates, and with an
  additional column \<open>key_id\<close> as the rotation script expects.
\<close>

definition demo_kms_keys :: "bool \<Rightarrow> nat \<Rightarrow> kms_table" where
  "demo_kms_keys with_key_id n =
     \<lparr>columns = (if with_key_id then [''key_id''] else []) @
                  [''user_id'', ''encrypted_key'', ''encrypted_dek'', ''created_at''],
      rows = [demo_envelope n]\<rparr>"

definition demo_db :: "bool \<Rightarrow> nat \<Rightarrow> database" where
  "demo_db with_key_id n =
     \<lparr>master_keys_tbl = demo_master_keys 2, kms_keys_tbl = demo_kms_keys with_key_id n\<rparr>"

text \<open>The text of a column value; empty when it is not text.\<close>

fun sql_text :: "sql_value \<Rightarrow> string" where
  "sql_text (SqlText s) = s"
| "sql_text _ = []"

text \<open>Flipping bit \<open>i\<close> of a buffer (bit \<open>i mod 8\<close> of byte \<open>i div 8\<close>), to state tampering.\<close>



text \<open>The random IVs of a rotation run, one per row.\<close>

definition demo_ivs :: "nat \<Rightarrow> buffer" where
  "demo_ivs i = replicate 16 4"

text \<open>
  The row loop on its own, with master keys that are strings: a table of two rows, the
  first with no wrapped DEK at all, the second wrapped under the old key.
\<close>

definition demo_old_key :: js_value where
  "demo_old_key = JsString ''old-master-key''"

definition demo_new_key :: js_value where
  "demo_new_key = JsString ''new-master-key''"

definition demo_row :: "string \<Rightarrow> sql_value \<Rightarrow> sql_row" where
  "demo_row kid d =
     (\<lambda>c. SqlNull)(''key_id'' := SqlText kid, ''user_id'' := SqlText (''owner-of-'' @ kid),
                    ''encrypted_key'' := SqlText (''payload-of-'' @ kid), ''encrypted_dek'' := d,
                    ''created_at'' := SqlDateTime 150)"

definition demo_wrapped_old :: sql_value where
  "demo_wrapped_old =
     (case encryptDek demo_node demo_dek demo_old_key (replicate 16 8) of
        Inl e \<Rightarrow> SqlNull
      | Inr b \<Rightarrow> SqlText b)"

definition demo_two_rows :: kms_table where
  "demo_two_rows =
     \<lparr>columns = [''key_id'', ''user_id'', ''encrypted_key'', ''encrypted_dek'', ''created_at''],
      rows = [demo_row ''a'' SqlNull, demo_row ''b'' demo_wrapped_old]\<rparr>"

definition demo_work :: "(buffer \<times> sql_value \<times> sql_value) list" where
  "demo_work = [(replicate 16 4, SqlText ''a'', SqlNull), (replicate 16 5, SqlText ''b'', demo_wrapped_old)]"



text \<open>Exactly one row is active, and every other row is retired.\<close>

definition single_active :: "master_keys \<Rightarrow> bool" where
  "single_active tbl =
     (case filter (\<lambda>x. status x = Active) tbl of
        [r] \<Rightarrow> list_all (\<lambda>x. x \<noteq> r \<longrightarrow> status x = Retired) tbl
      | _ \<Rightarrow> False)"


section \<open>Properties of the encodings and of CBC\<close>

lemma demo_inv: "length b = length k \<Longrightarrow> map (\<lambda>(x, y). x - y) (zip (map (\<lambda>(x, y). x + y) (zip b k)) k) = (b::buffer)"
  by (induction b k rule: list_induct2) auto

lemma demo_inv2: "length b = length k \<Longrightarrow> map (\<lambda>(x, y). x + y) (zip (map (\<lambda>(x, y). x - y) (zip b k)) k) = (b::buffer)"
  by (induction b k rule: list_induct2) auto

lemma hex_val_digit: "n < 16 \<Longrightarrow> hex_val (hex_digit n) = Some n"
  by (auto simp: hex_val_def hex_digit_def Let_def)

lemma hex_decode_encode: "hex_decode (hex_encode bs) = bs"
proof (induction bs)
  case Nil then show ?case by (simp add: hex_encode_def)
next
  case (Cons b bs)
  have "unat b < 256" using unsigned_less[of b] by simp
  then have lt: "unat b div 16 < 16" by simp
  have "of_nat (16 * (unat b div 16) + unat b mod 16) = b" by simp
  with Cons lt show ?case by (simp add: hex_encode_def hex_val_digit)
qed

lemma length_hex_encode: "length (hex_encode bs) = 2 * length bs"
  by (induction bs) (simp_all add: hex_encode_def)

lemma demo_good: "good_node demo_node"
  by (simp add: good_node_def demo_node_def demo_enc_def demo_dec_def demo_inv demo_inv2 hex_decode_encode)

lemma xor_bytes_length: "length (xor_bytes a b) = min (length a) (length b)"
  by (simp add: xor_bytes_def)

lemma xor_bytes_cancel: "length a = length b \<Longrightarrow> xor_bytes (xor_bytes a b) b = a"
  by (induction a b rule: list_induct2) (simp_all add: xor_bytes_def xor.assoc)

lemma length_cbc_enc:
  "(\<And>b. length b = 16 \<Longrightarrow> length (E b) = 16) \<Longrightarrow> length iv = 16 \<Longrightarrow> 16 * n \<le> length xs \<Longrightarrow>
   length (cbc_enc E iv n xs) = 16 * n"
  by (induction n arbitrary: iv xs) (simp_all add: Let_def xor_bytes_length)

lemma cbc_dec_enc:
  "(\<And>b. length b = 16 \<Longrightarrow> length (E b) = 16 \<and> D (E b) = b) \<Longrightarrow> length iv = 16 \<Longrightarrow>
   length xs = 16 * n \<Longrightarrow> cbc_dec D iv n (cbc_enc E iv n xs) = xs"
proof (induction n arbitrary: iv xs)
  case 0 then show ?case by simp
next
  case (Suc n)
  let ?b = "xor_bytes (take 16 xs) iv"
  have lb: "length ?b = 16" using Suc.prems by (simp add: xor_bytes_length)
  have lc: "length (E ?b) = 16" and dc: "D (E ?b) = ?b" using Suc.prems(1)[OF lb] by simp_all
  have "cbc_dec D (E ?b) n (cbc_enc E (E ?b) n (drop 16 xs)) = drop 16 xs"
    using Suc.prems by (intro Suc.IH) (simp_all add: lc)
  moreover have "xor_bytes ?b iv = take 16 xs"
    using Suc.prems by (intro xor_bytes_cancel) simp
  ultimately show ?case by (simp add: Let_def lc dc)
qed

lemma final_pad_length: "length (final_pad xs) mod 16 = 0" "16 \<le> length (final_pad xs)" "final_pad xs \<noteq> []"
  unfolding final_pad_def by (simp_all add: mod_simps) presburger+

lemma unat_of_nat_byte: "n < 256 \<Longrightarrow> unat (of_nat n :: byte) = n"
  by (simp add: unat_of_nat)

lemma final_unpad_append:
  assumes "0 < n" "n \<le> 16"
  shows "final_unpad (xs @ replicate n (of_nat n)) = Inr xs"
proof -
  have u: "unat (of_nat n :: byte) = n" using assms by (intro unat_of_nat_byte) simp
  have l: "last (xs @ replicate n (of_nat n :: byte)) = of_nat n" using assms by simp
  show ?thesis
    unfolding final_unpad_def l Let_def u using assms by simp
qed

lemma final_unpad_pad: "final_unpad (final_pad xs) = Inr xs"
  unfolding final_pad_def by (rule final_unpad_append) simp_all

lemma pkcs7Unpad_append:
  assumes "0 < n" "n \<le> 16"
  shows "pkcs7Unpad (xs @ replicate n (of_nat n)) = xs"
proof -
  have u: "unat (of_nat n :: byte) = n" using assms by (intro unat_of_nat_byte) simp
  have l: "last (xs @ replicate n (of_nat n :: byte)) = of_nat n" using assms by simp
  show ?thesis
    unfolding pkcs7Unpad_def l Let_def u using assms by simp
qed

lemma pkcs7Unpad_pkcs7Pad: "pkcs7Unpad (pkcs7Pad xs) = xs"
  unfolding pkcs7Pad_def Let_def by (rule pkcs7Unpad_append) simp_all

lemma aes_256_cbc_roundtrip:
  assumes "good_node P" "length key = 32" "length iv = 16"
  shows "\<exists>ct. aes_256_cbc_encrypt P key iv dat = Inr ct \<and> aes_256_cbc_decrypt P key iv ct = Inr dat"
proof -
  let ?pd = "final_pad dat" let ?n = "length ?pd div 16"
  let ?ct = "cbc_enc (aes_enc P key) iv ?n ?pd"
  have E: "\<And>b. length b = 16 \<Longrightarrow> length (aes_enc P key b) = 16 \<and> aes_dec P key (aes_enc P key b) = b"
    using assms(1,2) by (simp add: good_node_def)
  have len: "length ?pd = 16 * ?n" using final_pad_length(1)[of dat] by presburger
  have lct: "length ?ct = 16 * ?n" using E assms(3) len by (intro length_cbc_enc) simp_all
  have n1: "1 \<le> ?n" using final_pad_length(2)[of dat] by simp
  have ne: "?ct \<noteq> []" using lct n1 by auto
  have dec: "cbc_dec (aes_dec P key) iv ?n ?ct = ?pd" using E assms(3) len by (intro cbc_dec_enc) simp_all
  have "aes_256_cbc_decrypt P key iv ?ct = Inr dat"
    using assms(2,3) ne lct dec by (simp add: aes_256_cbc_decrypt_def final_unpad_pad)
  then show ?thesis using assms(2,3) by (simp add: aes_256_cbc_encrypt_def Let_def)
qed



section \<open>The concrete instance: master keys\<close>

lemma encryptKey_decryptKey:
  assumes "good_node P" "length rk = 32" "length iv = 16"
  shows "\<exists>e. encryptKey P rk iv kb = Inr e \<and> decryptKey P rk e = Inr kb"
proof -
  obtain ct where enc: "aes_256_cbc_encrypt P rk iv kb = Inr ct"
    and dec: "aes_256_cbc_decrypt P rk iv ct = Inr kb"
    using aes_256_cbc_roundtrip[OF assms] by blast
  have "b64_decode P (b64_encode P (iv @ ct)) = iv @ ct"
    using assms(1) by (simp add: good_node_def)
  then have "decryptKey P rk (b64_encode P (iv @ ct)) = Inr kb"
    using assms(3) dec by (simp add: decryptKey_def)
  then show ?thesis by (simp add: encryptKey_def enc)
qed

lemma length_demo_enc: "16 \<le> length k \<Longrightarrow> length b = 16 \<Longrightarrow> length (demo_enc k b) = 16"
  by (simp add: demo_enc_def)

lemma demo_encryptKey_length:
  assumes "length iv = 16" "encryptKey demo_node demo_root_key iv kb = Inr e"
  shows "length e = 2 * (16 + 16 * (length (final_pad kb) div 16))"
proof -
  have len: "length (final_pad kb) = 16 * (length (final_pad kb) div 16)"
    using final_pad_length(1)[of kb] by presburger
  have "length (cbc_enc (demo_enc demo_root_key) iv (length (final_pad kb) div 16) (final_pad kb))
          = 16 * (length (final_pad kb) div 16)"
    using assms(1) len by (intro length_cbc_enc) (simp_all add: length_demo_enc demo_root_key_def)
  then show ?thesis
    using assms
    by (auto simp: encryptKey_def aes_256_cbc_encrypt_def demo_node_def Let_def length_hex_encode
        demo_root_key_def split: if_splits)
qed

lemma addMasterKey_success:
  assumes "encryptKey P rk iv (hex_decode hexKey) = Inr e" "kid \<notin> set (map key_id tbl)"
    "length kid \<le> 64" "length e \<le> 65535"
  shows "addMasterKey P rk iv now kid hexKey tbl =
    Inr (retire_others (tbl @ [\<lparr>key_id = kid, key_material = e, created_at = now,
                               status = Active, description = None\<rparr>]) kid)"
  using assms by (simp add: addMasterKey_def insert_master_key_def)

lemma demo_master_keys_rows:
  "\<exists>e1 e2 e3.
     decryptKey demo_node demo_root_key e1 = Inr (replicate 32 17) \<and>
     decryptKey demo_node demo_root_key e2 = Inr (replicate 32 34) \<and>
     decryptKey demo_node demo_root_key e3 = Inr (replicate 32 51) \<and>
     demo_master_keys 1 =
       [\<lparr>key_id = ''K1'', key_material = e1, created_at = 100, status = Active, description = None\<rparr>] \<and>
     demo_master_keys 2 =
       [\<lparr>key_id = ''K1'', key_material = e1, created_at = 100, status = Retired, description = None\<rparr>,
        \<lparr>key_id = ''K2'', key_material = e2, created_at = 200, status = Active, description = None\<rparr>] \<and>
     demo_master_keys 3 =
       [\<lparr>key_id = ''K1'', key_material = e1, created_at = 100, status = Retired, description = None\<rparr>,
        \<lparr>key_id = ''K2'', key_material = e2, created_at = 200, status = Retired, description = None\<rparr>,
        \<lparr>key_id = ''K3'', key_material = e3, created_at = 300, status = Active, description = None\<rparr>] \<and>
     addMasterKey demo_node demo_root_key (replicate 16 2) 200 ''K2'' (hex_encode (replicate 32 34))
       (demo_master_keys 1) = Inr (demo_master_keys 2) \<and>
     addMasterKey demo_node demo_root_key (replicate 16 3) 300 ''K3'' (hex_encode (replicate 32 51))
       (demo_master_keys 2) = Inr (demo_master_keys 3)"
proof -
  have rk: "length demo_root_key = 32" by (simp add: demo_root_key_def)
  have fp: "length (final_pad (replicate 32 x)) div 16 = 3" for x :: byte
    by (simp add: final_pad_def)
  obtain e1 where e1: "encryptKey demo_node demo_root_key (replicate 16 1) (replicate 32 17) = Inr e1"
      "decryptKey demo_node demo_root_key e1 = Inr (replicate 32 17)"
    using encryptKey_decryptKey[OF demo_good rk, of "replicate 16 1" "replicate 32 17"] by auto
  obtain e2 where e2: "encryptKey demo_node demo_root_key (replicate 16 2) (replicate 32 34) = Inr e2"
      "decryptKey demo_node demo_root_key e2 = Inr (replicate 32 34)"
    using encryptKey_decryptKey[OF demo_good rk, of "replicate 16 2" "replicate 32 34"] by auto
  obtain e3 where e3: "encryptKey demo_node demo_root_key (replicate 16 3) (replicate 32 51) = Inr e3"
      "decryptKey demo_node demo_root_key e3 = Inr (replicate 32 51)"
    using encryptKey_decryptKey[OF demo_good rk, of "replicate 16 3" "replicate 32 51"] by auto
  have l1: "length e1 \<le> 65535" using demo_encryptKey_length[OF _ e1(1)] by (simp add: fp)
  have l2: "length e2 \<le> 65535" using demo_encryptKey_length[OF _ e2(1)] by (simp add: fp)
  have l3: "length e3 \<le> 65535" using demo_encryptKey_length[OF _ e3(1)] by (simp add: fp)
  let ?r1 = "\<lparr>key_id = ''K1'', key_material = e1, created_at = 100, status = Active, description = None\<rparr>"
  let ?r2 = "\<lparr>key_id = ''K2'', key_material = e2, created_at = 200, status = Active, description = None\<rparr>"
  let ?r3 = "\<lparr>key_id = ''K3'', key_material = e3, created_at = 300, status = Active, description = None\<rparr>"
  let ?q1 = "\<lparr>key_id = ''K1'', key_material = e1, created_at = 100, status = Retired, description = None\<rparr>"
  let ?q2 = "\<lparr>key_id = ''K2'', key_material = e2, created_at = 200, status = Retired, description = None\<rparr>"
  have a1: "addMasterKey demo_node demo_root_key (replicate 16 1) 100 ''K1'' (hex_encode (replicate 32 17)) []
      = Inr [?r1]"
    using e1(1) l1 by (subst addMasterKey_success[where e = e1]) (simp_all add: hex_decode_encode retire_others_def)
  have a2: "addMasterKey demo_node demo_root_key (replicate 16 2) 200 ''K2'' (hex_encode (replicate 32 34)) [?r1]
      = Inr [?q1, ?r2]"
    using e2(1) l2 by (subst addMasterKey_success[where e = e2]) (simp_all add: hex_decode_encode retire_others_def)
  have a3: "addMasterKey demo_node demo_root_key (replicate 16 3) 300 ''K3'' (hex_encode (replicate 32 51))
        [?q1, ?r2]
      = Inr [?q1, ?q2, ?r3]"
    using e3(1) l3 by (subst addMasterKey_success[where e = e3]) (simp_all add: hex_decode_encode retire_others_def)
  have "demo_master_keys 1 = [?r1]"
    by (simp add: demo_master_keys_def demo_calls_def a1)
  moreover have "demo_master_keys 2 = [?q1, ?r2]"
    by (simp add: demo_master_keys_def demo_calls_def a1 a2 numeral_2_eq_2)
  moreover have "demo_master_keys 3 = [?q1, ?q2, ?r3]"
    by (simp add: demo_master_keys_def demo_calls_def a1 a2 a3)
  moreover have "addMasterKey demo_node demo_root_key (replicate 16 2) 200 ''K2'' (hex_encode (replicate 32 34))
      (demo_master_keys 1) = Inr (demo_master_keys 2)"
    by (simp add: demo_master_keys_def demo_calls_def a1 a2 numeral_2_eq_2)
  moreover have "addMasterKey demo_node demo_root_key (replicate 16 3) 300 ''K3'' (hex_encode (replicate 32 51))
      (demo_master_keys 2) = Inr (demo_master_keys 3)"
    by (simp add: demo_master_keys_def demo_calls_def a1 a2 a3 numeral_2_eq_2 numeral_3_eq_3)
  ultimately show ?thesis using e1(2) e2(2) e3(2) by simp
qed

lemma demo_add:
  "addMasterKey demo_node demo_root_key (replicate 16 2) 200 ''K2'' (hex_encode (replicate 32 34))
     (demo_master_keys 1) = Inr (demo_master_keys 2)"
  "addMasterKey demo_node demo_root_key (replicate 16 3) 300 ''K3'' (hex_encode (replicate 32 51))
     (demo_master_keys 2) = Inr (demo_master_keys 3)"
  using demo_master_keys_rows by blast+

lemma demo_active:
  "getActiveMasterKey demo_node demo_root_key (demo_master_keys 1) = Inr \<lparr>keyId = ''K1'', keyMaterial = replicate 32 17\<rparr>"
  "getActiveMasterKey demo_node demo_root_key (demo_master_keys (Suc 0)) = Inr \<lparr>keyId = ''K1'', keyMaterial = replicate 32 17\<rparr>"
  "getActiveMasterKey demo_node demo_root_key (demo_master_keys 2) = Inr \<lparr>keyId = ''K2'', keyMaterial = replicate 32 34\<rparr>"
  "getActiveMasterKey demo_node demo_root_key (demo_master_keys 3) = Inr \<lparr>keyId = ''K3'', keyMaterial = replicate 32 51\<rparr>"
  using demo_master_keys_rows by (auto simp: getActiveMasterKey_def)

lemma demo_retired:
  "getRetiredMasterKeys demo_node demo_root_key (demo_master_keys 1) = Inr []"
  "getRetiredMasterKeys demo_node demo_root_key (demo_master_keys 2) = Inr [\<lparr>keyId = ''K1'', keyMaterial = replicate 32 17\<rparr>]"
  "getRetiredMasterKeys demo_node demo_root_key (demo_master_keys 3) =
     Inr [\<lparr>keyId = ''K1'', keyMaterial = replicate 32 17\<rparr>, \<lparr>keyId = ''K2'', keyMaterial = replicate 32 34\<rparr>]"
  using demo_master_keys_rows by (auto simp: getRetiredMasterKeys_def)

section \<open>Wrapping and unwrapping\<close>

lemma encryptPayload_roundtrip:
  assumes "good_node P" "length dek = 32" "length iv = 16"
  shows "\<exists>blob. encryptPayload P dek iv p = Inr blob \<and>
           decryptPayload P (hex_encode dek) blob = Inr (utf8_toString P p)"
proof -
  obtain ct where enc: "aes_256_cbc_encrypt P dek iv (pkcs7Pad p) = Inr ct"
    and dec: "aes_256_cbc_decrypt P dek iv ct = Inr (pkcs7Pad p)"
    using aes_256_cbc_roundtrip[OF assms] by blast
  have b64: "b64_decode P (b64_encode P (iv @ ct)) = iv @ ct"
    using assms(1) by (simp add: good_node_def)
  have "decryptPayload P (hex_encode dek) (b64_encode P (iv @ ct)) = Inr (utf8_toString P p)"
    using assms(3) dec
    by (simp add: decryptPayload_def b64 hex_decode_encode pkcs7Unpad_pkcs7Pad)
  then show ?thesis by (simp add: encryptPayload_def enc)
qed


lemma aes_256_cbc_decrypt_encrypt:
  assumes "good_node P" "aes_256_cbc_encrypt P key iv dat = Inr ct"
  shows "aes_256_cbc_decrypt P key iv ct = Inr dat" "ct \<noteq> []"
proof -
  have l: "length key = 32" "length iv = 16"
    using assms(2) by (auto simp: aes_256_cbc_encrypt_def split: if_splits)
  obtain ct' where "aes_256_cbc_encrypt P key iv dat = Inr ct'" "aes_256_cbc_decrypt P key iv ct' = Inr dat"
    using aes_256_cbc_roundtrip[OF assms(1) l] by blast
  with assms(2) show d: "aes_256_cbc_decrypt P key iv ct = Inr dat" by simp
  then show "ct \<noteq> []" by (auto simp: aes_256_cbc_decrypt_def split: if_splits)
qed

lemma b64_encode_nonempty: "good_node P \<Longrightarrow> bs \<noteq> [] \<Longrightarrow> b64_encode P bs \<noteq> []"
  by (metis good_node_def)

lemma wrapDek_unwrapDek:
  assumes "good_node P" "length mk = 32" "length iv = 16"
  shows "\<exists>d. wrapDek P mk iv dek = Inr d \<and> unwrapDek P mk d = Inr dek \<and> d \<noteq> []"
proof -
  obtain ct where enc: "aes_256_cbc_encrypt P mk iv (pkcs7Pad dek) = Inr ct"
    using aes_256_cbc_roundtrip[OF assms] by blast
  have dec: "aes_256_cbc_decrypt P mk iv ct = Inr (pkcs7Pad dek)"
    by (rule aes_256_cbc_decrypt_encrypt[OF assms(1) enc])
  have b64: "b64_decode P (b64_encode P (iv @ ct)) = iv @ ct"
    using assms(1) by (simp add: good_node_def)
  have ne: "b64_encode P (iv @ ct) \<noteq> []"
    using assms(1,3) by (intro b64_encode_nonempty) auto
  have "unwrapDek P mk (b64_encode P (iv @ ct)) = Inr dek"
    using assms(3) dec by (simp add: unwrapDek_def b64 pkcs7Unpad_pkcs7Pad)
  then show ?thesis using ne by (simp add: wrapDek_def enc)
qed

lemma encrypt_body_success:
  assumes "good_node P" "getActiveMasterKey P rk mks = Inr mk" "length (keyMaterial mk) = 32"
    "length (hex_decode dekhex) = 32" "length iv = 16" "length iv2 = 16"
  shows "\<exists>k d. encrypt_body P rk mks iv iv2 dat dekhex = Inr (k, d) \<and>
           encryptPayload P (hex_decode dekhex) iv (b64_decode P dat) = Inr k \<and>
           wrapDek P (keyMaterial mk) iv2 (hex_decode dekhex) = Inr d"
proof -
  obtain k where k: "encryptPayload P (hex_decode dekhex) iv (b64_decode P dat) = Inr k"
    using encryptPayload_roundtrip[OF assms(1,4,5)] by blast
  obtain d where d: "wrapDek P (keyMaterial mk) iv2 (hex_decode dekhex) = Inr d"
    using wrapDek_unwrapDek[OF assms(1,3,6)] by blast
  show ?thesis using assms(2,3,4) k d by (simp add: encrypt_body_def)
qed

lemma demo_envelope_fields:
  assumes "n = 1 \<and> x = 17 \<or> n = 2 \<and> x = 34"
  shows "\<exists>k d. demo_envelope n ''key_id'' = SqlText ''e1'' \<and>
     demo_envelope n ''user_id'' = SqlText ''user-7'' \<and>
     demo_envelope n ''encrypted_key'' = SqlText k \<and>
     demo_envelope n ''encrypted_dek'' = SqlText d \<and>
     demo_envelope n ''created_at'' = SqlDateTime 150 \<and>
     wrapDek demo_node (replicate 32 x) (replicate 16 8) demo_dek = Inr d \<and>
     unwrapDek demo_node (replicate 32 x) d = Inr demo_dek \<and> d \<noteq> []"
proof -
  let ?mk = "\<lparr>keyId = if n = 1 then ''K1'' else ''K2'', keyMaterial = replicate 32 x\<rparr>"
  have act: "getActiveMasterKey demo_node demo_root_key (demo_master_keys n) = Inr ?mk"
    using assms demo_active(1,3) by auto
  have hd: "hex_decode (hex_encode demo_dek) = demo_dek" by (rule hex_decode_encode)
  have ld: "length demo_dek = 32" by (simp add: demo_dek_def)
  obtain k d where kd: "encrypt_body demo_node demo_root_key (demo_master_keys n) (replicate 16 7) (replicate 16 8)
           (hex_encode (buffer_from_string ''secret-1'')) (hex_encode demo_dek) = Inr (k, d)"
      "wrapDek demo_node (keyMaterial ?mk) (replicate 16 8) (hex_decode (hex_encode demo_dek)) = Inr d"
    using encrypt_body_success[OF demo_good act, where dekhex = "hex_encode demo_dek" and iv = "replicate 16 7"
        and ?iv2.0 = "replicate 16 8" and dat = "hex_encode (buffer_from_string ''secret-1'')"]
    by (auto simp: hd ld)
  obtain d' where d': "wrapDek demo_node (replicate 32 x) (replicate 16 8) demo_dek = Inr d'"
      "unwrapDek demo_node (replicate 32 x) d' = Inr demo_dek" "d' \<noteq> []"
    using wrapDek_unwrapDek[OF demo_good, of "replicate 32 x" "replicate 16 8" demo_dek] by auto
  have "d' = d" using kd(2) d'(1) by (simp add: hd)
  then show ?thesis using kd(1) d' by (simp add: demo_envelope_def)
qed

lemma api_decrypt_dek_fields:
  assumes "header_authorization req = Some h" "remove_first ''Bearer '' h = tok" "tok \<noteq> []"
    "body_encrypted_dek req = Some blob" "blob \<noteq> []"
  shows "api_decrypt_dek P jwt rk mks req =
    (case jwt tok of
       None \<Rightarrow> Failure 401 ''Token verification failed''
     | Some pl \<Rightarrow>
         if \<not> truthy (payload_id pl) then Failure 401 ''Invalid token payload''
         else (case decrypt_dek_body P rk mks blob of
                 Inl e \<Rightarrow> Failure 500 ''Decryption failed''
               | Inr d \<Rightarrow> Dek d))"
  using assms by (simp add: api_decrypt_dek_def auth_verify_def split: option.splits)


section \<open>Payload round trip\<close>





section \<open>The gate of decrypt-dek\<close>

text \<open>
  C1, as the code has it. A decrypt-dek request that carries a token and a wrapped DEK is
  rejected with 401 when the auth service does not verify the token or the verified
  payload has no \<open>id\<close>, whatever the wrapped DEK is. The vault does not compare the
  subject with the owner of any envelope: once the token verifies with an \<open>id\<close>, the
  answer is decided by the wrapped DEK and the active master key alone.
\<close>

theorem decrypt_dek_gate:
  assumes "header_authorization req = Some h" "remove_first ''Bearer '' h = tok" "tok \<noteq> []"
    "body_encrypted_dek req = Some blob" "blob \<noteq> []"
  shows "(jwt tok = None \<longrightarrow>
            api_decrypt_dek P jwt rk mks req = Failure 401 ''Token verification failed'') \<and>
         (\<forall>pl. jwt tok = Some pl \<longrightarrow> \<not> truthy (payload_id pl) \<longrightarrow>
            api_decrypt_dek P jwt rk mks req = Failure 401 ''Invalid token payload'') \<and>
         (\<forall>pl. jwt tok = Some pl \<longrightarrow> truthy (payload_id pl) \<longrightarrow>
            api_decrypt_dek P jwt rk mks req =
              (case decrypt_dek_body P rk mks blob of
                 Inl e \<Rightarrow> Failure 500 ''Decryption failed''
               | Inr d \<Rightarrow> Dek d))"
  by (simp add: api_decrypt_dek_fields[OF assms])

theorem decrypt_dek_gate_witness:
  "api_decrypt_dek demo_node demo_jwt demo_root_key (demo_master_keys 1)
     \<lparr>header_authorization = Some ''Bearer expired'', body_encrypted_dek = Some ''zz''\<rparr>
     = Failure 401 ''Token verification failed'' \<and>
   api_decrypt_dek demo_node demo_jwt demo_root_key (demo_master_keys 1)
     \<lparr>header_authorization = Some ''Bearer token-7'', body_encrypted_dek = Some ''zz''\<rparr>
     = Failure 500 ''Decryption failed''"
proof -
  have a: "remove_first ''Bearer '' ''Bearer expired'' = ''expired''" by simp
  have b: "remove_first ''Bearer '' ''Bearer token-7'' = ''token-7''" by simp
  have j: "demo_jwt ''expired'' = None" by (simp add: demo_jwt_def)
  have k: "demo_jwt ''token-7'' = Some \<lparr>payload_id = Some ''user-7''\<rparr>" by (simp add: demo_jwt_def)
  have d: "decrypt_dek_body demo_node demo_root_key (demo_master_keys 1) ''zz'' = Inl InvalidIV"
    by (simp add: decrypt_dek_body_def demo_active unwrapDek_def aes_256_cbc_decrypt_def)
      (simp add: demo_node_def hex_val_def)
  show ?thesis
    using decrypt_dek_gate[of "\<lparr>header_authorization = Some ''Bearer expired'', body_encrypted_dek = Some ''zz''\<rparr>"
        "''Bearer expired''" "''expired''" "''zz''" demo_jwt demo_node demo_root_key "demo_master_keys 1"]
      decrypt_dek_gate[of "\<lparr>header_authorization = Some ''Bearer token-7'', body_encrypted_dek = Some ''zz''\<rparr>"
        "''Bearer token-7''" "''token-7''" "''zz''" demo_jwt demo_node demo_root_key "demo_master_keys 1"]
      a b j k d
    by simp
qed

theorem decrypt_dek_other_subject:
  "demo_jwt ''token-42'' = Some \<lparr>payload_id = Some ''user-42''\<rparr> \<and>
   demo_envelope 1 ''user_id'' = SqlText ''user-7'' \<and>
   api_decrypt_dek demo_node demo_jwt demo_root_key (demo_master_keys 1)
     \<lparr>header_authorization = Some ''Bearer token-42'',
      body_encrypted_dek = Some (sql_text (demo_envelope 1 ''encrypted_dek''))\<rparr>
   = Dek (hex_encode demo_dek)"
proof -
  obtain d where d: "demo_envelope 1 ''user_id'' = SqlText ''user-7''"
      "demo_envelope 1 ''encrypted_dek'' = SqlText d"
      "unwrapDek demo_node (replicate 32 17) d = Inr demo_dek" "d \<noteq> []"
    using demo_envelope_fields[of 1 17] by auto
  have j: "demo_jwt ''token-42'' = Some \<lparr>payload_id = Some ''user-42''\<rparr>" by (simp add: demo_jwt_def)
  have b: "decrypt_dek_body demo_node demo_root_key (demo_master_keys 1) d = Inr (hex_encode demo_dek)"
    by (simp add: decrypt_dek_body_def demo_active d(3))
  have "api_decrypt_dek demo_node demo_jwt demo_root_key (demo_master_keys 1)
     \<lparr>header_authorization = Some ''Bearer token-42'', body_encrypted_dek = Some d\<rparr>
     = Dek (hex_encode demo_dek)"
    by (subst api_decrypt_dek_fields[where h = "''Bearer token-42''" and tok = "''token-42''" and blob = d])
       (simp_all add: d(4) j b del: One_nat_def)
  then show ?thesis using d(1,2) j by simp
qed

section \<open>No length check on the recovered DEK\<close>

text \<open>
  C10. For a request that passes the token checks while a 32-byte master key is active:
  whenever the CBC decryption of the blob succeeds, decrypt-dek answers with the hex of
  the unpadded bytes, with no check of their length. Every byte string \<open>d\<close>, of any
  length and also empty, is returned for the blob that wraps \<open>d\<close>. The encrypt handler
  in contrast fails on a DEK that is not exactly 32 bytes.
\<close>

theorem decrypt_dek_no_length_check:
  assumes "good_node P"
    and "header_authorization req = Some h" "remove_first ''Bearer '' h = tok" "tok \<noteq> []"
    and "jwt tok = Some pl" "truthy (payload_id pl)"
    and "getActiveMasterKey P rk mks = Inr mk" "length (keyMaterial mk) = 32"
  shows
    "(\<forall>blob padded. body_encrypted_dek req = Some blob \<longrightarrow> blob \<noteq> [] \<longrightarrow>
        aes_256_cbc_decrypt P (keyMaterial mk) (take 16 (b64_decode P blob)) (drop 16 (b64_decode P blob))
          = Inr padded \<longrightarrow>
        api_decrypt_dek P jwt rk mks req = Dek (hex_encode (pkcs7Unpad padded))) \<and>
     (\<forall>d iv. length iv = 16 \<longrightarrow>
        (\<exists>blob. wrapDek P (keyMaterial mk) iv d = Inr blob \<and>
           api_decrypt_dek P jwt rk mks (req\<lparr>body_encrypted_dek := Some blob\<rparr>) = Dek (hex_encode d))) \<and>
     (\<forall>dat dekhex iv iv2. dat \<noteq> [] \<longrightarrow> dekhex \<noteq> [] \<longrightarrow> length (hex_decode dekhex) \<noteq> 32 \<longrightarrow>
        encrypt_body P rk mks iv iv2 dat dekhex = Inl InvalidDEKLength \<and>
        api_encrypt P rk mks iv iv2 \<lparr>body_data = Some dat, body_dek = Some dekhex\<rparr>
          = Failure 500 ''Encryption failed'')"
proof (intro conjI allI impI)
  fix blob padded
  assume b: "body_encrypted_dek req = Some blob" "blob \<noteq> []"
    and d: "aes_256_cbc_decrypt P (keyMaterial mk) (take 16 (b64_decode P blob)) (drop 16 (b64_decode P blob))
          = Inr padded"
  have "decrypt_dek_body P rk mks blob = Inr (hex_encode (pkcs7Unpad padded))"
    using assms(7,8) d by (simp add: decrypt_dek_body_def unwrapDek_def)
  then show "api_decrypt_dek P jwt rk mks req = Dek (hex_encode (pkcs7Unpad padded))"
    using assms(5,6) by (simp add: api_decrypt_dek_fields[OF assms(2,3,4) b])
next
  fix d iv
  assume iv: "length (iv :: buffer) = 16"
  obtain blob where w: "wrapDek P (keyMaterial mk) iv d = Inr blob"
      "unwrapDek P (keyMaterial mk) blob = Inr d" "blob \<noteq> []"
    using wrapDek_unwrapDek[OF assms(1,8) iv] by blast
  have "decrypt_dek_body P rk mks blob = Inr (hex_encode d)"
    using assms(7,8) w(2) by (simp add: decrypt_dek_body_def)
  moreover have "api_decrypt_dek P jwt rk mks (req\<lparr>body_encrypted_dek := Some blob\<rparr>) =
      (case decrypt_dek_body P rk mks blob of
         Inl e \<Rightarrow> Failure 500 ''Decryption failed'' | Inr d \<Rightarrow> Dek d)"
    using assms(2,3,4,5,6) w(3)
    by (subst api_decrypt_dek_fields[where h = h and tok = tok and blob = blob]) simp_all
  ultimately show "\<exists>blob. wrapDek P (keyMaterial mk) iv d = Inr blob \<and>
           api_decrypt_dek P jwt rk mks (req\<lparr>body_encrypted_dek := Some blob\<rparr>) = Dek (hex_encode d)"
    using w(1) by simp
next
  fix dat dekhex :: string and iv iv2 :: buffer
  assume a: "dat \<noteq> []" "dekhex \<noteq> []" "length (hex_decode dekhex) \<noteq> 32"
  show e: "encrypt_body P rk mks iv iv2 dat dekhex = Inl InvalidDEKLength"
    using assms(7,8) a(3) by (simp add: encrypt_body_def)
  show "api_encrypt P rk mks iv iv2 \<lparr>body_data = Some dat, body_dek = Some dekhex\<rparr>
          = Failure 500 ''Encryption failed''"
    using a(1,2) by (simp add: api_encrypt_def e)
qed

theorem decrypt_dek_no_length_check_witness:
  "(\<exists>blob. wrapDek demo_node (replicate 32 34) (replicate 16 8) [] = Inr blob \<and>
      api_decrypt_dek demo_node demo_jwt demo_root_key (demo_master_keys 2)
        \<lparr>header_authorization = Some ''Bearer token-7'', body_encrypted_dek = Some blob\<rparr> = Dek []) \<and>
   (\<exists>blob. wrapDek demo_node (replicate 32 34) (replicate 16 8) [1, 2, 3] = Inr blob \<and>
      api_decrypt_dek demo_node demo_jwt demo_root_key (demo_master_keys 2)
        \<lparr>header_authorization = Some ''Bearer token-7'', body_encrypted_dek = Some blob\<rparr> = Dek ''010203'') \<and>
   api_encrypt demo_node demo_root_key (demo_master_keys 2) (replicate 16 7) (replicate 16 8)
     \<lparr>body_data = Some ''00'', body_dek = Some ''010203''\<rparr> = Failure 500 ''Encryption failed''"
proof -
  have b: "remove_first ''Bearer '' ''Bearer token-7'' = ''token-7''" by simp
  have k: "demo_jwt ''token-7'' = Some \<lparr>payload_id = Some ''user-7''\<rparr>" by (simp add: demo_jwt_def)
  have h1: "hex_encode [1, 2, 3] = ''010203''" by code_simp
  have h2: "length (hex_decode ''010203'') \<noteq> 32" by (simp add: hex_val_def)
  note t = decrypt_dek_no_length_check[where P = demo_node and jwt = demo_jwt and rk = demo_root_key
      and mks = "demo_master_keys 2" and h = "''Bearer token-7''" and tok = "''token-7''"
      and pl = "\<lparr>payload_id = Some ''user-7''\<rparr>"
      and mk = "\<lparr>keyId = ''K2'', keyMaterial = replicate 32 34\<rparr>"
      and req = "\<lparr>header_authorization = Some ''Bearer token-7'', body_encrypted_dek = Some ''zz''\<rparr>"]
  have t': "(\<forall>d iv. length iv = 16 \<longrightarrow>
        (\<exists>blob. wrapDek demo_node (replicate 32 34) iv d = Inr blob \<and>
           api_decrypt_dek demo_node demo_jwt demo_root_key (demo_master_keys 2)
             \<lparr>header_authorization = Some ''Bearer token-7'', body_encrypted_dek = Some blob\<rparr> = Dek (hex_encode d))) \<and>
     (\<forall>dat dekhex iv iv2. dat \<noteq> [] \<longrightarrow> dekhex \<noteq> [] \<longrightarrow> length (hex_decode dekhex) \<noteq> 32 \<longrightarrow>
        api_encrypt demo_node demo_root_key (demo_master_keys 2) iv iv2 \<lparr>body_data = Some dat, body_dek = Some dekhex\<rparr>
          = Failure 500 ''Encryption failed'')"
    using t demo_good b k demo_active(3) by simp
  have i: "length (replicate 16 8 :: buffer) = 16" by simp
  from t' have a1: "\<exists>blob. wrapDek demo_node (replicate 32 34) (replicate 16 8) [] = Inr blob \<and>
      api_decrypt_dek demo_node demo_jwt demo_root_key (demo_master_keys 2)
        \<lparr>header_authorization = Some ''Bearer token-7'', body_encrypted_dek = Some blob\<rparr> = Dek (hex_encode [])"
    using i by blast
  from t' have a2: "\<exists>blob. wrapDek demo_node (replicate 32 34) (replicate 16 8) [1, 2, 3] = Inr blob \<and>
      api_decrypt_dek demo_node demo_jwt demo_root_key (demo_master_keys 2)
        \<lparr>header_authorization = Some ''Bearer token-7'', body_encrypted_dek = Some blob\<rparr> = Dek (hex_encode [1, 2, 3])"
    using i by blast
  from t' h2 have a3: "api_encrypt demo_node demo_root_key (demo_master_keys 2) (replicate 16 7) (replicate 16 8)
     \<lparr>body_data = Some ''00'', body_dek = Some ''010203''\<rparr> = Failure 500 ''Encryption failed''"
    by simp
  have h0: "hex_encode [] = []" by (simp add: hex_encode_def)
  show ?thesis using a1 a2 a3 unfolding h1 h0 by blast
qed


section \<open>The single active master key\<close>

lemma filter_active_retired:
  "kid \<notin> set (map key_id tbl) \<Longrightarrow>
   filter (\<lambda>x. status x = Active)
     (map (\<lambda>r. if key_id r \<noteq> kid \<and> status r = Active then r\<lparr>status := Retired\<rparr> else r) tbl) = []"
  by (induction tbl) auto

lemma status_cases: "status r \<noteq> Active \<Longrightarrow> status r = Retired"
  by (cases "status r") simp_all

lemma addMasterKey_result:
  assumes "addMasterKey P rk iv now kid hexKey tbl0 = Inr tbl"
  shows "single_active tbl \<and> (\<exists>r\<in>set tbl. key_id r = kid \<and> status r = Active)"
proof -
  from assms obtain e where k: "kid \<notin> set (map key_id tbl0)"
    and t: "tbl = retire_others (tbl0 @ [\<lparr>key_id = kid, key_material = e, created_at = now,
                               status = Active, description = None\<rparr>]) kid"
    by (auto simp: addMasterKey_def insert_master_key_def split: sum.splits if_splits)
  let ?r = "\<lparr>key_id = kid, key_material = e, created_at = now, status = Active, description = None\<rparr>"
  let ?f = "\<lambda>r. if key_id r \<noteq> kid \<and> status r = Active then r\<lparr>status := Retired\<rparr> else r"
  have t': "tbl = map ?f tbl0 @ [?r]" by (simp add: t retire_others_def)
  have f: "filter (\<lambda>x. status x = Active) tbl = [?r]"
    by (simp add: t' filter_active_retired[OF k])
  have "\<forall>x \<in> set tbl. x \<noteq> ?r \<longrightarrow> status x = Retired"
  proof (intro ballI impI)
    fix x assume "x \<in> set tbl" "x \<noteq> ?r"
    then obtain y where y: "y \<in> set tbl0" "x = ?f y" by (auto simp: t')
    then have "key_id y \<noteq> kid" using k by auto
    then show "status x = Retired" using y(2) by (cases "status y") simp_all
  qed
  then have "single_active tbl" by (simp add: single_active_def f list_all_iff)
  moreover have "?r \<in> set tbl" by (simp add: t')
  ultimately show ?thesis by force
qed

lemma add_calls_single_active:
  "single_active tbl \<Longrightarrow> single_active (add_calls P rk cs tbl)"
proof (induction cs arbitrary: tbl)
  case Nil then show ?case by simp
next
  case (Cons c cs)
  show ?case
  proof (cases "addMasterKey P rk (call_iv c) (call_now c) (call_keyId c) (call_hexKey c) tbl")
    case (Inl e) then show ?thesis using Cons by simp
  next
    case (Inr t)
    then have "single_active t" using addMasterKey_result by blast
    then show ?thesis using Cons.IH Inr by simp
  qed
qed


text \<open>
  C3. After any sequence of \<open>addMasterKey\<close> calls from the empty table, a call that
  completes leaves exactly one active row, the new key, and every other row retired; this
  stays so through all further calls, whether they complete or throw.
\<close>

theorem addMasterKey_single_active:
  assumes "addMasterKey P rk iv now kid hexKey (add_calls P rk cs []) = Inr tbl"
  shows "single_active tbl \<and> (\<exists>r\<in>set tbl. key_id r = kid \<and> status r = Active) \<and>
         (\<forall>cs'. single_active (add_calls P rk cs' tbl))"
  using addMasterKey_result[OF assms] add_calls_single_active by blast

theorem addMasterKey_single_active_witness:
  "addMasterKey demo_node demo_root_key (replicate 16 2) 200 ''K2'' (hex_encode (replicate 32 34))
     (add_calls demo_node demo_root_key (take 1 demo_calls) []) = Inr (demo_master_keys 2) \<and>
   single_active (demo_master_keys 2) \<and>
   single_active (add_calls demo_node demo_root_key (drop 2 demo_calls) (demo_master_keys 2))"
proof -
  have h: "addMasterKey demo_node demo_root_key (replicate 16 2) 200 ''K2'' (hex_encode (replicate 32 34))
     (add_calls demo_node demo_root_key (take 1 demo_calls) []) = Inr (demo_master_keys 2)"
    using demo_add(1) by (simp add: demo_master_keys_def del: One_nat_def)
  show ?thesis using addMasterKey_single_active[OF h] h by blast
qed

section \<open>The order of the retired keys\<close>

text \<open>
  C7 on a table with two retired keys: after the calls for K1, K2 and K3 (created at 100,
  200 and 300) \<open>getRetiredMasterKeys\<close> returns both retired keys unwrapped, K1 before
  K2, that is oldest first: the query has no \<open>ORDER BY\<close>.
\<close>

theorem getRetiredMasterKeys_table_order:
  "map key_id (demo_master_keys 3) = [''K1'', ''K2'', ''K3''] \<and>
   map created_at (demo_master_keys 3) = [100, 200, 300] \<and>
   map status (demo_master_keys 3) = [Retired, Retired, Active] \<and>
   getRetiredMasterKeys demo_node demo_root_key (demo_master_keys 3) =
     Inr [\<lparr>keyId = ''K1'', keyMaterial = replicate 32 17\<rparr>,
          \<lparr>keyId = ''K2'', keyMaterial = replicate 32 34\<rparr>]"
  using demo_master_keys_rows demo_retired(3) by auto

section \<open>Tampering with the stored payload\<close>

















section \<open>The rotation script\<close>

lemma rotate_rows_Cons:
  "rotate_rows P old new ((iv, kid, d) # rest) tbl =
     (case rewrap P old new iv d of
        Inl err \<Rightarrow> (fst (rotate_rows P old new rest tbl),
                    FailedToRotate kid err # snd (rotate_rows P old new rest tbl))
      | Inr b \<Rightarrow> (fst (rotate_rows P old new rest (update_encrypted_dek tbl b kid)),
                  Rotated kid # snd (rotate_rows P old new rest (update_encrypted_dek tbl b kid))))"
  by (simp split: sum.splits prod.splits)



lemma update_encrypted_dek_frame:
  "columns (update_encrypted_dek tbl v k) = columns tbl \<and>
   length (rows (update_encrypted_dek tbl v k)) = length (rows tbl) \<and>
   (\<forall>i<length (rows tbl). \<forall>c. c \<noteq> ''encrypted_dek'' \<longrightarrow>
      (rows (update_encrypted_dek tbl v k) ! i) c = (rows tbl ! i) c)"
  by (simp add: update_encrypted_dek_def)

lemma rotate_rows_frame:
  "columns (fst (rotate_rows P old new work tbl)) = columns tbl \<and>
   length (rows (fst (rotate_rows P old new work tbl))) = length (rows tbl) \<and>
   (\<forall>i<length (rows tbl). \<forall>c. c \<noteq> ''encrypted_dek'' \<longrightarrow>
      (rows (fst (rotate_rows P old new work tbl)) ! i) c = (rows tbl ! i) c)"
proof (induction work arbitrary: tbl)
  case Nil then show ?case by simp
next
  case (Cons w work)
  obtain iv kid d where w: "w = (iv, kid, d)" by (cases w) auto
  show ?case
  proof (cases "rewrap P old new iv d")
    case (Inl e)
    then show ?thesis using Cons.IH[of tbl] by (simp add: w rotate_rows_Cons del: rotate_rows.simps)
  next
    case (Inr b)
    have "fst (rotate_rows P old new (w # work) tbl)
        = fst (rotate_rows P old new work (update_encrypted_dek tbl b kid))"
      by (simp add: w Inr rotate_rows_Cons del: rotate_rows.simps)
    then show ?thesis
      using Cons.IH[of "update_encrypted_dek tbl b kid"] update_encrypted_dek_frame[of tbl b kid]
      by simp
  qed
qed

lemma rewrap_buffer: "rewrap P (JsBuffer a) new iv d = Inl TypeError"
  by (cases d) (simp_all add: rewrap_def decryptDek_def buffer_from_base64_def)

lemma rotate_rows_buffer:
  "rotate_rows P (JsBuffer a) new work tbl = (tbl, map (\<lambda>w. FailedToRotate (fst (snd w)) TypeError) work)"
proof (induction work arbitrary: tbl)
  case Nil then show ?case by simp
next
  case (Cons w work)
  obtain iv kid d where w: "w = (iv, kid, d)" by (cases w) auto
  show ?case by (simp add: w rotate_rows_Cons rewrap_buffer Cons.IH del: rotate_rows.simps)
qed

lemma rotateMasterKey_result:
  assumes "getActiveMasterKey P rk (master_keys_tbl db) = Inr a"
    and "getRetiredMasterKeys P rk (master_keys_tbl db) = Inr (r0 # rest)"
  shows "rotateMasterKey P rk ivs db =
    (case select_key_id_encrypted_dek (kms_keys_tbl db) of
       Inl e \<Rightarrow> Inl e
     | Inr rws \<Rightarrow> Inr (db, map (\<lambda>r. FailedToRotate (fst r) TypeError) rws))"
proof (cases "select_key_id_encrypted_dek (kms_keys_tbl db)")
  case (Inl e)
  then show ?thesis using assms by (simp add: rotateMasterKey_def)
next
  case (Inr rws)
  have "map (\<lambda>w. FailedToRotate (fst (snd w)) TypeError) (zip (map ivs [0..<length rws]) rws)
      = map (\<lambda>r. FailedToRotate (fst r) TypeError) rws"
    by (rule nth_equalityI) simp_all
  then show ?thesis using assms Inr by (simp add: rotateMasterKey_def rotate_rows_buffer)
qed


lemma demo_db_master_keys: "master_keys_tbl (demo_db b n) = demo_master_keys 2"
  by (simp add: demo_db_def)

lemma demo_select:
  "select_key_id_encrypted_dek (kms_keys_tbl (demo_db True n)) =
     Inr [(demo_envelope n ''key_id'', demo_envelope n ''encrypted_dek'')]"
  "select_key_id_encrypted_dek (kms_keys_tbl (demo_db False n)) = Inl BadFieldError"
  by (simp_all add: demo_db_def demo_kms_keys_def select_key_id_encrypted_dek_def)

lemma demo_rotate:
  assumes "n = 1 \<or> n = 2"
  shows "rotateMasterKey demo_node demo_root_key ivs (demo_db True n) =
     Inr (demo_db True n, [FailedToRotate (SqlText ''e1'') TypeError])"
proof -
  have k: "demo_envelope n ''key_id'' = SqlText ''e1''"
    using assms demo_envelope_fields[of n] by auto
  show ?thesis
    by (subst rotateMasterKey_result[where a = "\<lparr>keyId = ''K2'', keyMaterial = replicate 32 34\<rparr>"
          and ?r0.0 = "\<lparr>keyId = ''K1'', keyMaterial = replicate 32 17\<rparr>" and rest = "[]"])
       (simp_all add: demo_db_master_keys demo_active demo_retired demo_select k)
qed

lemma demo_rotate_key_server_table:
  "rotateMasterKey demo_node demo_root_key ivs (demo_db False n) = Inl BadFieldError"
  by (subst rotateMasterKey_result[where a = "\<lparr>keyId = ''K2'', keyMaterial = replicate 32 34\<rparr>"
          and ?r0.0 = "\<lparr>keyId = ''K1'', keyMaterial = replicate 32 17\<rparr>" and rest = "[]"])
     (simp_all add: demo_db_master_keys demo_active demo_retired demo_select)





text \<open>
  C9. The row loop, for any pair of master keys, keeps the columns and the number of rows
  of the envelope table and changes no column other than \<open>encrypted_dek\<close> in any row.
  A rotation run that returns leaves the master-key table as it was and, in every envelope
  row, every column other than \<open>encrypted_dek\<close>: \<open>user_id\<close>, \<open>encrypted_key\<close> and
  \<open>created_at\<close> among them.
\<close>

theorem rotation_changes_only_wrapped_dek:
  "(\<forall>old new work tbl.
      columns (fst (rotate_rows P old new work tbl)) = columns tbl \<and>
      length (rows (fst (rotate_rows P old new work tbl))) = length (rows tbl) \<and>
      (\<forall>i<length (rows tbl). \<forall>c. c \<noteq> ''encrypted_dek'' \<longrightarrow>
         (rows (fst (rotate_rows P old new work tbl)) ! i) c = (rows tbl ! i) c)) \<and>
   (\<forall>db' log. rotateMasterKey P rk ivs db = Inr (db', log) \<longrightarrow>
      master_keys_tbl db' = master_keys_tbl db \<and>
      columns (kms_keys_tbl db') = columns (kms_keys_tbl db) \<and>
      length (rows (kms_keys_tbl db')) = length (rows (kms_keys_tbl db)) \<and>
      (\<forall>i<length (rows (kms_keys_tbl db)). \<forall>c. c \<noteq> ''encrypted_dek'' \<longrightarrow>
         (rows (kms_keys_tbl db') ! i) c = (rows (kms_keys_tbl db) ! i) c))"
proof (intro conjI allI impI)
  fix db' log assume r: "rotateMasterKey P rk ivs db = Inr (db', log)"
  then obtain old new work where
    d: "db' = db\<lparr>kms_keys_tbl := fst (rotate_rows P old new work (kms_keys_tbl db))\<rparr>"
    by (auto simp: rotateMasterKey_def split: sum.splits list.splits prod.splits)
       (metis fst_conv)
  note f = rotate_rows_frame[of P old new work "kms_keys_tbl db"]
  show "master_keys_tbl db' = master_keys_tbl db" by (simp add: d)
  show "columns (kms_keys_tbl db') = columns (kms_keys_tbl db)" using f by (simp add: d)
  show "length (rows (kms_keys_tbl db')) = length (rows (kms_keys_tbl db))" using f by (simp add: d)
  fix i c assume "i < length (rows (kms_keys_tbl db))" "c \<noteq> ''encrypted_dek''"
  then show "(rows (kms_keys_tbl db') ! i) c = (rows (kms_keys_tbl db) ! i) c"
    using f by (simp add: d)
qed (use rotate_rows_frame in blast)+


theorem rotation_changes_only_wrapped_dek_witness:
  "(rows (fst (rotate_rows demo_node demo_old_key demo_new_key demo_work demo_two_rows)) ! 1) ''user_id''
     = SqlText ''owner-of-b'' \<and>
   (rows (fst (rotate_rows demo_node demo_old_key demo_new_key demo_work demo_two_rows)) ! 1) ''encrypted_key''
     = SqlText ''payload-of-b'' \<and>
   (rows (fst (rotate_rows demo_node demo_old_key demo_new_key demo_work demo_two_rows)) ! 1) ''created_at''
     = SqlDateTime 150 \<and>
   rotateMasterKey demo_node demo_root_key demo_ivs (demo_db True 1) =
     Inr (demo_db True 1, [FailedToRotate (SqlText ''e1'') TypeError]) \<and>
   (rows (kms_keys_tbl (demo_db True 1)) ! 0) ''user_id'' = SqlText ''user-7''"
proof -
  note t = rotation_changes_only_wrapped_dek[where P = demo_node and rk = demo_root_key
      and ivs = demo_ivs and db = "demo_db True 1"]
  have l: "1 < length (rows demo_two_rows)" by (simp add: demo_two_rows_def)
  have f: "c \<noteq> ''encrypted_dek'' \<Longrightarrow>
      (rows (fst (rotate_rows demo_node demo_old_key demo_new_key demo_work demo_two_rows)) ! 1) c
        = (rows demo_two_rows ! 1) c" for c
  proof -
    assume c: "c \<noteq> ''encrypted_dek''"
    have "\<forall>i<length (rows demo_two_rows). \<forall>c. c \<noteq> ''encrypted_dek'' \<longrightarrow>
         (rows (fst (rotate_rows demo_node demo_old_key demo_new_key demo_work demo_two_rows)) ! i) c
           = (rows demo_two_rows ! i) c"
      using t[THEN conjunct1] by blast
    then show ?thesis using l c by blast
  qed
  have r: "rotateMasterKey demo_node demo_root_key demo_ivs (demo_db True 1) =
     Inr (demo_db True 1, [FailedToRotate (SqlText ''e1'') TypeError])"
    by (rule demo_rotate) simp
  have u: "(rows (kms_keys_tbl (demo_db True 1)) ! 0) ''user_id'' = SqlText ''user-7''"
    using demo_envelope_fields[of 1 17] by (auto simp: demo_db_def demo_kms_keys_def)
  have k: "master_keys_tbl (demo_db True 1) = master_keys_tbl (demo_db True 1)"
    using t[THEN conjunct2, rule_format, OF r] by (simp del: One_nat_def)
  have v: "(rows demo_two_rows ! 1) ''user_id'' = SqlText ''owner-of-b''"
      "(rows demo_two_rows ! 1) ''encrypted_key'' = SqlText ''payload-of-b''"
      "(rows demo_two_rows ! 1) ''created_at'' = SqlDateTime 150"
    by (simp_all add: demo_two_rows_def demo_row_def)
  have w: "(rows (fst (rotate_rows demo_node demo_old_key demo_new_key demo_work demo_two_rows)) ! 1) ''user_id''
        = SqlText ''owner-of-b''"
      "(rows (fst (rotate_rows demo_node demo_old_key demo_new_key demo_work demo_two_rows)) ! 1) ''encrypted_key''
        = SqlText ''payload-of-b''"
      "(rows (fst (rotate_rows demo_node demo_old_key demo_new_key demo_work demo_two_rows)) ! 1) ''created_at''
        = SqlDateTime 150"
    unfolding v[symmetric] by (rule f, simp)+
  show ?thesis using w r u k by (intro conjI)
qed


text \<open>
  C4 on a concrete database: K1 retired, K2 active, one envelope whose DEK the vault
  wrapped under K1. With a column \<open>key_id\<close> in the envelope table the run returns, the
  row is logged as failed with a \<open>TypeError\<close> (the key material is a \<open>Buffer\<close>, which
  has no \<open>padEnd\<close>) and the database is unchanged; with the columns that the key server
  creates the \<open>SELECT\<close> fails. Either way the stored wrapped DEK still unwraps to the
  DEK under K1 and does not under the new active key K2.
\<close>

theorem rotation_leaves_wrapped_dek:
  "rotateMasterKey demo_node demo_root_key demo_ivs (demo_db True 1) =
     Inr (demo_db True 1, [FailedToRotate (SqlText ''e1'') TypeError]) \<and>
   rotateMasterKey demo_node demo_root_key demo_ivs (demo_db False 1) = Inl BadFieldError \<and>
   getActiveMasterKey demo_node demo_root_key (master_keys_tbl (demo_db True 1)) =
     Inr \<lparr>keyId = ''K2'', keyMaterial = replicate 32 34\<rparr> \<and>
   getRetiredMasterKeys demo_node demo_root_key (master_keys_tbl (demo_db True 1)) =
     Inr [\<lparr>keyId = ''K1'', keyMaterial = replicate 32 17\<rparr>] \<and>
   unwrapDek demo_node (replicate 32 17) (sql_text (demo_envelope 1 ''encrypted_dek'')) = Inr demo_dek \<and>
   unwrapDek demo_node (replicate 32 34) (sql_text (demo_envelope 1 ''encrypted_dek'')) \<noteq> Inr demo_dek"
proof -
  let ?B = "replicate 16 8 @ cbc_enc (demo_enc (replicate 32 17)) (replicate 16 8) 4
              (final_pad (pkcs7Pad demo_dek))"
  obtain d where d: "demo_envelope 1 ''encrypted_dek'' = SqlText d"
      "wrapDek demo_node (replicate 32 17) (replicate 16 8) demo_dek = Inr d"
      "unwrapDek demo_node (replicate 32 17) d = Inr demo_dek"
    using demo_envelope_fields[of 1 17] by auto
  have n: "length (final_pad (pkcs7Pad demo_dek)) div 16 = 4" by code_simp
  have "wrapDek demo_node (replicate 32 17) (replicate 16 8) demo_dek = Inr (hex_encode ?B)"
    unfolding wrapDek_def aes_256_cbc_encrypt_def Let_def n by (simp add: demo_node_def)
  then have dB: "d = hex_encode ?B" using d(2) by simp
  have dec: "aes_256_cbc_decrypt demo_node (replicate 32 34) (take 16 ?B) (drop 16 ?B) =
      Inr [244, 244, 244, 244, 244, 244, 244, 244, 244, 244, 244, 244, 244, 244,
      244, 244, 20, 20, 20, 20, 20, 20, 20, 20, 20, 20, 20, 20, 20, 20, 20,
      20, 7, 7, 7, 7, 7, 7, 7, 7, 7, 7, 7, 7, 7, 7, 7, 7, 1, 1, 1, 1, 1, 1,
      1, 1, 1, 1, 1, 1, 1, 1, 1]"
    by code_simp
  have b: "b64_decode demo_node = hex_decode" by (simp add: demo_node_def)
  have "unwrapDek demo_node (replicate 32 34) (hex_encode ?B) =
      Inr (pkcs7Unpad [244, 244, 244, 244, 244, 244, 244, 244, 244, 244, 244, 244, 244, 244,
      244, 244, 20, 20, 20, 20, 20, 20, 20, 20, 20, 20, 20, 20, 20, 20, 20,
      20, 7, 7, 7, 7, 7, 7, 7, 7, 7, 7, 7, 7, 7, 7, 7, 7, 1, 1, 1, 1, 1, 1,
      1, 1, 1, 1, 1, 1, 1, 1, 1])"
    unfolding unwrapDek_def b hex_decode_encode Let_def dec by simp
  moreover have "pkcs7Unpad [244, 244, 244, 244, 244, 244, 244, 244, 244, 244, 244, 244, 244, 244,
      244, 244, 20, 20, 20, 20, 20, 20, 20, 20, 20, 20, 20, 20, 20, 20, 20,
      20, 7, 7, 7, 7, 7, 7, 7, 7, 7, 7, 7, 7, 7, 7, 7, 7, 1, 1, 1, 1, 1, 1,
      1, 1, 1, 1, 1, 1, 1, 1, 1] \<noteq> demo_dek"
    by code_simp
  ultimately have ne: "unwrapDek demo_node (replicate 32 34) d \<noteq> Inr demo_dek"
    by (simp add: dB)
  have r: "rotateMasterKey demo_node demo_root_key demo_ivs (demo_db True 1) =
     Inr (demo_db True 1, [FailedToRotate (SqlText ''e1'') TypeError])"
    by (rule demo_rotate) simp
  show ?thesis
    using r demo_rotate_key_server_table[of demo_ivs 1] d(3) ne
    by (simp add: d(1) demo_db_master_keys demo_active demo_retired del: One_nat_def)
qed




end
